theory Spec2Isabelle
  imports Main "HOL-Library.AList" "HOL-Library.Multiset"
begin

section \<open>Data model of the chat-room coordinator\<close>

text \<open>
  The server keeps four JavaScript \<open>Map\<close>s (\<open>activeUsers\<close>, \<open>chatRooms\<close>,
  \<open>messageTimestamps\<close>, \<open>typingUsers\<close>). A \<open>Map\<close> iterates in insertion order,
  \<open>set\<close> on a present key keeps the key's position and \<open>set\<close> on an absent key appends:
  that is \<open>AList.update\<close> on an association list; \<open>get\<close> is \<open>map_of\<close>, \<open>delete\<close> is
  \<open>AList.delete\<close>. A \<open>Set\<close> of member ids is a list in insertion order.

  The value in \<open>socket.userId\<close>, used as key of the maps and element of the member
  sets, is either a string (\<open>guest-<ms>\<close>) or the \<open>ObjectId\<close> object of the user
  document fetched for this connection. A \<open>Map\<close> and a \<open>Set\<close> compare object keys by
  reference, so an \<open>ObjectId\<close> is modelled by its reference together with the id it
  holds: two keys of the model are equal exactly when the JavaScript keys are the same
  string or the same object. \<open>participant_id\<close> reads the id a key stands for; every
  handshake of one registered user fetches a new document, hence a new reference with the
  same id.
\<close>

datatype ident = StrId string | ObjId nat string


record user =
  u_id :: ident
  u_username :: string
  u_profilePicture :: string

record socket =
  sock_id :: string
  userId :: ident
  user :: user

record active_user =
  au_id :: ident
  au_socketId :: string
  au_username :: string
  au_profilePicture :: string
  au_lastSeen :: int
  au_status :: string

record message =
  m_id :: string
  m_content :: string
  m_sender :: ident
  m_senderType :: string
  m_senderName :: string
  m_senderAvatar :: string
  m_room :: string
  m_type :: string
  m_createdAt :: int

record message_data =
  md_id :: string
  md_content :: string
  md_createdAt :: int
  md_sender :: user

record state =
  activeUsers :: "(ident \<times> active_user) list"
  chatRooms :: "(string \<times> ident list) list"
  messageTimestamps :: "(ident \<times> int list) list"
  typingUsers :: "(ident \<times> string) list"
  messages :: "message list"

definition init :: state where
  "init = \<lparr>activeUsers = [], chatRooms = [], messageTimestamps = [], typingUsers = [],
           messages = []\<rparr>"

text \<open>
  Outbound effects. \<open>socket.emit\<close> addresses one socket, \<open>io.to(room).emit\<close> a room,
  \<open>io.emit\<close> everybody. An exception that leaves a handler without being caught is
  recorded as \<open>Throw\<close>.
\<close>

datatype target = ToSocket string | ToRoom string | ToAll

datatype payload =
    ActiveUsers "active_user list"
  | UserLeft ident "string option" "string option" int
  | ChatHistory "message list" "(ident \<times> string \<times> string \<times> string) list"
  | UserJoined ident string int
  | UpdateParticipants "(ident \<times> string \<times> string) list"
  | TypingStatus "(ident \<times> string) list"
  | UserStoppedTyping ident
  | GroupMessage message_data
  | PrivateMessage string string ident int
  | ErrorEv string

datatype effect = Emit target payload | Throw string

definition has :: "'k \<Rightarrow> ('k \<times> 'v) list \<Rightarrow> bool" where
  "has k m = (map_of m k \<noteq> None)"

definition set_add :: "'a \<Rightarrow> 'a list \<Rightarrow> 'a list" where
  "set_add x xs = (if x \<in> set xs then xs else xs @ [x])"

definition truthy :: "string option \<Rightarrow> bool" where
  "truthy v = (case v of None \<Rightarrow> False | Some str \<Rightarrow> str \<noteq> [])"

section \<open>Authentication middleware (\<open>io.use\<close>)\<close>

fun digits :: "nat \<Rightarrow> string" where
  "digits n = (if n < 10 then [''0123456789'' ! n]
               else digits (n div 10) @ [''0123456789'' ! (n mod 10)])"

declare digits.simps [simp del]

definition show_int :: "int \<Rightarrow> string" where
  "show_int i = (if i < 0 then CHR ''-'' # digits (nat (- i)) else digits (nat i))"

definition guest_socket :: "string \<Rightarrow> int \<Rightarrow> socket" where
  "guest_socket sid now =
     (let guestId = ''guest-'' @ show_int now;
          guestName = ''Guest-'' @ drop (length guestId - 4) guestId
      in \<lparr>sock_id = sid, userId = StrId guestId,
          user = \<lparr>u_id = StrId guestId, u_username = guestName,
                  u_profilePicture =
                    ''https://ui-avatars.com/api/?name='' @ guestName @ ''&background=random''\<rparr>\<rparr>)"

datatype verify_result = VerifyThrows | Decoded string

datatype lookup_result = LookupThrows | NotFound | Found user

datatype auth_result = Accept socket | Reject string

text \<open>
  \<open>jwt.verify\<close> and \<open>User.findById\<close> are collaborators: the first throws or returns the
  decoded payload's \<open>id\<close>, the second throws, resolves to \<open>null\<close> or resolves to a
  document. Both calls sit in the inner \<open>try\<close>, so either exception ends in the guest
  branch. The handshake's \<open>auth\<close> is \<open>None\<close> when it is \<open>null\<close> or \<open>undefined\<close>: reading
  \<open>auth.token\<close> then throws outside the inner \<open>try\<close> and the outer \<open>catch\<close> rejects the
  connection. An \<open>auth\<close> object holds the token or none.
\<close>

definition auth_middleware ::
  "string \<Rightarrow> string option option \<Rightarrow> int \<Rightarrow> (string \<Rightarrow> verify_result)
     \<Rightarrow> (string \<Rightarrow> lookup_result) \<Rightarrow> auth_result" where
  "auth_middleware sid auth now verify findById =
     (case auth of
        None \<Rightarrow> Reject ''Authentication error: Server error''
      | Some token \<Rightarrow>
         if \<not> truthy token then Accept (guest_socket sid now)
         else case token of
           None \<Rightarrow> Accept (guest_socket sid now)
         | Some tok \<Rightarrow>
            (case verify tok of
               VerifyThrows \<Rightarrow> Accept (guest_socket sid now)
             | Decoded did \<Rightarrow>
                (case findById did of
                   LookupThrows \<Rightarrow> Accept (guest_socket sid now)
                 | NotFound \<Rightarrow> Reject ''Authentication error: User not found''
                 | Found usr \<Rightarrow> Accept \<lparr>sock_id = sid, userId = u_id usr, user = usr\<rparr>)))"

section \<open>Connection handler and event handlers\<close>

text \<open>
  Every handler takes the state, the socket it was registered on, its payload and the
  clock reading, and returns the state it leaves with the effects in emission order.
  A handler that awaits the message store is run here without other events between its
  parts; the store's answer is an argument. \<open>joinRoom\<close> and \<open>groupMessage\<close> write the
  four maps only before their \<open>await\<close>, so events arriving during an \<open>await\<close> meet the
  same maps as events arriving after the handler.

  \<open>io.to(room).emit\<close> is recorded as an effect addressed to the room. Which sockets
  are subscribed to a room (\<open>socket.join\<close>, \<open>socket.leave\<close>) is the transport's own
  table and is not part of the state.
\<close>

definition connect :: "state \<Rightarrow> socket \<Rightarrow> int \<Rightarrow> state \<times> effect list" where
  "connect s sock now =
     (let au = AList.update (userId sock)
                 \<lparr>au_id = userId sock, au_socketId = sock_id sock,
                  au_username = u_username (user sock),
                  au_profilePicture = u_profilePicture (user sock),
                  au_lastSeen = now, au_status = ''online''\<rparr> (activeUsers s)
      in (s\<lparr>activeUsers := au\<rparr>, [Emit ToAll (ActiveUsers (map snd au))]))"

fun leave_previous ::
  "socket \<Rightarrow> string \<Rightarrow> int \<Rightarrow> (string \<times> ident list) list
     \<Rightarrow> (string \<times> ident list) list \<times> effect list" where
  "leave_previous sock room now [] = ([], [])"
| "leave_previous sock room now ((roomId, members) # rest) =
     (let (rest', evs) = leave_previous sock room now rest
      in if userId sock \<in> set members \<and> roomId \<noteq> room
         then ((roomId, removeAll (userId sock) members) # rest',
               Emit (ToRoom roomId)
                 (UserLeft (userId sock) (Some (u_username (user sock))) None now) # evs)
         else ((roomId, members) # rest', evs))"

definition find_history :: "message list \<Rightarrow> string \<Rightarrow> message list" where
  "find_history store room =
     take 50 (sort_key m_createdAt (filter (\<lambda>m. m_room m = room) store))"

definition participants ::
  "(ident \<times> active_user) list \<Rightarrow> ident list \<Rightarrow> (ident \<times> string \<times> string \<times> string) list option" where
  "participants au members =
     those (map (\<lambda>uid. map_option
                   (\<lambda>usr. (uid, au_username usr, au_profilePicture usr, au_status usr))
                   (map_of au uid)) members)"

definition room_members ::
  "(ident \<times> active_user) list \<Rightarrow> ident list \<Rightarrow> (ident \<times> string \<times> string) list option" where
  "room_members au members =
     those (map (\<lambda>uid. map_option (\<lambda>usr. (uid, au_username usr, au_profilePicture usr))
                   (map_of au uid)) members)"

definition join_failed :: "socket \<Rightarrow> effect" where
  "join_failed sock = Emit (ToSocket (sock_id sock)) (ErrorEv ''Failed to join room'')"

definition joinRoom :: "state \<Rightarrow> socket \<Rightarrow> string \<Rightarrow> int \<Rightarrow> bool \<Rightarrow> state \<times> effect list" where
  "joinRoom s sock room now gateway_up =
     (let (rooms1, left) = leave_previous sock room now (chatRooms s);
          rooms2 = (if \<not> has room rooms1 then AList.update room [] rooms1 else rooms1);
          members = set_add (userId sock) (case map_of rooms2 room of None \<Rightarrow> [] | Some ms \<Rightarrow> ms);
          s1 = s\<lparr>chatRooms := AList.update room members rooms2\<rparr>
      in if \<not> gateway_up then (s1, left @ [join_failed sock])
         else case (participants (activeUsers s1) members, room_members (activeUsers s1) members) of
                (Some ps, Some rs) \<Rightarrow>
                  (s1, left @
                    [Emit (ToSocket (sock_id sock)) (ChatHistory (find_history (messages s1) room) ps),
                     Emit (ToRoom room) (UserJoined (userId sock) (u_username (user sock)) now),
                     Emit (ToRoom room) (UpdateParticipants rs)])
              | _ \<Rightarrow> (s1, left @ [join_failed sock]))"

definition leaveRoom :: "state \<Rightarrow> socket \<Rightarrow> string \<Rightarrow> int \<Rightarrow> state \<times> effect list" where
  "leaveRoom s sock roomId now =
     (let rooms' =
            (case map_of (chatRooms s) roomId of
               None \<Rightarrow> chatRooms s
             | Some members \<Rightarrow>
                 (let members' = removeAll (userId sock) members
                  in if length members' = 0 then AList.delete roomId (chatRooms s)
                     else AList.update roomId members' (chatRooms s)))
      in (s\<lparr>chatRooms := rooms'\<rparr>,
          [Emit (ToRoom roomId) (UserLeft (userId sock) None (Some roomId) now)]))"

definition typingData ::
  "(ident \<times> string) list \<Rightarrow> (ident \<times> active_user) list \<Rightarrow> string \<Rightarrow> (ident \<times> string) list option" where
  "typingData tu au room =
     those (map (\<lambda>(uid, _). map_option (\<lambda>usr. (uid, au_username usr)) (map_of au uid))
              (filter (\<lambda>(_, roomId). roomId = room) tu))"

definition typing :: "state \<Rightarrow> socket \<Rightarrow> string option \<Rightarrow> bool \<Rightarrow> state \<times> effect list" where
  "typing s sock data_room isTyping =
     (case data_room of
        None \<Rightarrow> (s, [])
      | Some room \<Rightarrow>
          if room \<noteq> [] \<and> has room (chatRooms s) then
            (let tu = (if isTyping then AList.update (userId sock) room (typingUsers s)
                       else AList.delete (userId sock) (typingUsers s));
                 s1 = s\<lparr>typingUsers := tu\<rparr>
             in case typingData tu (activeUsers s1) room of
                  None \<Rightarrow>
                    (s1, [Throw ''TypeError: Cannot read properties of undefined (reading username)''])
                | Some td \<Rightarrow> (s1, [Emit (ToRoom room) (TypingStatus td)]))
          else (s, []))"

definition stopTyping :: "state \<Rightarrow> socket \<Rightarrow> string \<Rightarrow> state \<times> effect list" where
  "stopTyping s sock room =
     (if has (StrId room) (typingUsers s)
      then (s\<lparr>typingUsers := AList.delete (userId sock) (typingUsers s)\<rparr>,
            [Emit (ToRoom room) (UserStoppedTyping (userId sock))])
      else (s, []))"

datatype save_result = Saved string int | SaveFailed string

definition timestamps_of :: "state \<Rightarrow> ident \<Rightarrow> int list" where
  "timestamps_of s uid = (case map_of (messageTimestamps s) uid of None \<Rightarrow> [] | Some ts \<Rightarrow> ts)"

definition error_to :: "socket \<Rightarrow> string \<Rightarrow> effect" where
  "error_to sock msg = Emit (ToSocket (sock_id sock)) (ErrorEv msg)"

text \<open>
  \<open>groupMessage\<close>: the four checks throw before anything is written. The timestamp is
  pushed before the message is built; building it calls \<open>startsWith\<close> on
  \<open>socket.user._id\<close>, which only a string has. \<open>message.save()\<close> rejects or resolves
  with the stored document (its \<open>_id\<close> and \<open>createdAt\<close>).
\<close>

definition groupMessage ::
  "state \<Rightarrow> socket \<Rightarrow> string option \<Rightarrow> string option \<Rightarrow> int \<Rightarrow> save_result
     \<Rightarrow> state \<times> effect list" where
  "groupMessage s sock data_room data_content timestamp saved =
     (case (data_room, data_content) of
        (Some room, Some content) \<Rightarrow>
          if room = [] \<or> content = [] then (s, [error_to sock ''Room and content are required''])
          else (case map_of (chatRooms s) room of
            None \<Rightarrow> (s, [error_to sock ''Room does not exist''])
          | Some members \<Rightarrow>
              if userId sock \<notin> set members then (s, [error_to sock ''User is not in this room''])
              else
                (let userTimestamps = timestamps_of s (userId sock);
                     recentMessages = filter (\<lambda>time. timestamp - time < 1000) userTimestamps
                 in if length recentMessages \<ge> 5
                    then (s, [error_to sock ''Message rate limit exceeded''])
                    else
                      (let s1 = s\<lparr>messageTimestamps :=
                                    AList.update (userId sock) (userTimestamps @ [timestamp])
                                      (messageTimestamps s)\<rparr>
                       in case u_id (user sock) of
                            ObjId _ _ \<Rightarrow>
                              (s1, [error_to sock ''socket.user._id.startsWith is not a function''])
                          | StrId idstr \<Rightarrow>
                              (case saved of
                                 SaveFailed e \<Rightarrow> (s1, [error_to sock e])
                               | Saved mid createdAt \<Rightarrow>
                                   (let msg = \<lparr>m_id = mid, m_content = content,
                                               m_sender = userId sock,
                                               m_senderType =
                                                 (if take 6 idstr = ''guest-'' then ''guest'' else ''user''),
                                               m_senderName = u_username (user sock),
                                               m_senderAvatar = u_profilePicture (user sock),
                                               m_room = room, m_type = ''group'',
                                               m_createdAt = createdAt\<rparr>
                                    in (s1\<lparr>messages := messages s1 @ [msg]\<rparr>,
                                        [Emit (ToRoom room)
                                           (GroupMessage
                                              \<lparr>md_id = m_id msg, md_content = m_content msg,
                                               md_createdAt = m_createdAt msg,
                                               md_sender =
                                                 \<lparr>u_id = userId sock,
                                                  u_username = u_username (user sock),
                                                  u_profilePicture = u_profilePicture (user sock)\<rparr>\<rparr>)]))))))
      | _ \<Rightarrow> (s, [error_to sock ''Room and content are required'']))"

definition privateMessage ::
  "state \<Rightarrow> socket list \<Rightarrow> socket \<Rightarrow> string \<Rightarrow> string \<Rightarrow> int \<Rightarrow> state \<times> effect list" where
  "privateMessage s sockets sock to body now =
     (case List.find (\<lambda>r. userId r = StrId to) sockets of
        None \<Rightarrow> (s, [])
      | Some recipientSocket \<Rightarrow>
          (s, [Emit (ToSocket (sock_id recipientSocket)) (PrivateMessage to body (userId sock) now)]))"

fun leave_all ::
  "socket \<Rightarrow> int \<Rightarrow> (string \<times> ident list) list \<Rightarrow> (string \<times> ident list) list \<times> effect list" where
  "leave_all sock now [] = ([], [])"
| "leave_all sock now ((roomId, members) # rest) =
     (let (rest', evs) = leave_all sock now rest
      in if userId sock \<in> set members
         then ((roomId, removeAll (userId sock) members) # rest',
               Emit (ToRoom roomId)
                 (UserLeft (userId sock) (Some (u_username (user sock))) None now) # evs)
         else ((roomId, members) # rest', evs))"

definition disconnect :: "state \<Rightarrow> socket \<Rightarrow> int \<Rightarrow> state \<times> effect list" where
  "disconnect s sock now =
     (let au = AList.delete (userId sock) (activeUsers s);
          (rooms', left) = leave_all sock now (chatRooms s)
      in (s\<lparr>activeUsers := au, chatRooms := rooms',
            typingUsers := AList.delete (userId sock) (typingUsers s)\<rparr>,
          Emit ToAll (ActiveUsers (map snd au)) # left))"

section \<open>Runs of the coordinator\<close>

datatype inbound =
    Connect socket int
  | JoinRoom socket string int bool
  | LeaveRoom socket string int
  | Typing socket "string option" bool
  | StopTyping socket string
  | GroupMsg socket "string option" "string option" int save_result
  | PrivateMsg "socket list" socket string string int
  | Disconnect socket int

fun step :: "state \<Rightarrow> inbound \<Rightarrow> state \<times> effect list" where
  "step s (Connect sock now) = connect s sock now"
| "step s (JoinRoom sock room now up) = joinRoom s sock room now up"
| "step s (LeaveRoom sock roomId now) = leaveRoom s sock roomId now"
| "step s (Typing sock room isTyping) = typing s sock room isTyping"
| "step s (StopTyping sock room) = stopTyping s sock room"
| "step s (GroupMsg sock room content now saved) = groupMessage s sock room content now saved"
| "step s (PrivateMsg sockets sock to body now) = privateMessage s sockets sock to body now"
| "step s (Disconnect sock now) = disconnect s sock now"

fun run :: "state \<Rightarrow> inbound list \<Rightarrow> state" where
  "run s [] = s"
| "run s (e # es) = run (fst (step s e)) es"



text \<open>
  The rate limiter as the specification words it: one timestamp sequence per key; an
  attempt that reaches the limiter (room and content given, room known, sender a member)
  is admitted when fewer than 5 entries of the key's sequence are younger than 1000 ms,
  and then its time is appended; nothing else touches a sequence. \<open>spec_windows\<close> follows
  the sequences along a run, taking only the checks from the state.
\<close>

definition passes_checks :: "state \<Rightarrow> socket \<Rightarrow> string option \<Rightarrow> string option \<Rightarrow> bool" where
  "passes_checks s sock data_room data_content =
     (case (data_room, data_content) of
        (Some room, Some content) \<Rightarrow>
          room \<noteq> [] \<and> content \<noteq> [] \<and>
          (case map_of (chatRooms s) room of
             None \<Rightarrow> False
           | Some members \<Rightarrow> userId sock \<in> set members)
      | _ \<Rightarrow> False)"




text \<open>
  Predicates on the room table: keys are unique and no id sits in the member lists of two
  rooms; every member list is free of repetitions.
\<close>

definition single_room :: "(string \<times> ident list) list \<Rightarrow> bool" where
  "single_room rooms \<longleftrightarrow>
     distinct (map fst rooms) \<and>
     (\<forall>(r1, ms1) \<in> set rooms. \<forall>(r2, ms2) \<in> set rooms. \<forall>u \<in> set ms1. u \<in> set ms2 \<longrightarrow> r1 = r2)"

definition members_distinct :: "(string \<times> ident list) list \<Rightarrow> bool" where
  "members_distinct rooms \<longleftrightarrow> (\<forall>(r, ms) \<in> set rooms. distinct ms)"

text \<open>The room table a \<open>joinRoom\<close> by \<open>sock\<close> into \<open>room\<close> leaves behind.\<close>

definition joined_rooms :: "socket \<Rightarrow> string \<Rightarrow> (string \<times> ident list) list \<Rightarrow> (string \<times> ident list) list" where
  "joined_rooms sock room rooms =
     (let rooms1 = map (\<lambda>(roomId, members).
            (roomId, if roomId \<noteq> room then removeAll (userId sock) members else members)) rooms;
          rooms2 = (if \<not> has room rooms1 then AList.update room [] rooms1 else rooms1)
      in AList.update room
           (set_add (userId sock) (case map_of rooms2 room of None \<Rightarrow> [] | Some ms \<Rightarrow> ms)) rooms2)"

definition rooms_ok :: "(string \<times> ident list) list \<Rightarrow> bool" where
  "rooms_ok rooms \<longleftrightarrow> single_room rooms \<and> members_distinct rooms"

section \<open>Sample sockets and states\<close>

definition alice :: socket where
  "alice = \<lparr>sock_id = ''sockA'', userId = StrId ''guest-1'',
            user = \<lparr>u_id = StrId ''guest-1'', u_username = ''Guest-st-1'',
                    u_profilePicture = ''picA''\<rparr>\<rparr>"

definition bob :: socket where
  "bob = \<lparr>sock_id = ''sockB'', userId = StrId ''guest-2'',
          user = \<lparr>u_id = StrId ''guest-2'', u_username = ''Guest-st-2'',
                  u_profilePicture = ''picB''\<rparr>\<rparr>"

definition alice_online :: "ident \<times> active_user" where
  "alice_online = (StrId ''guest-1'',
     \<lparr>au_id = StrId ''guest-1'', au_socketId = ''sockA'', au_username = ''Guest-st-1'',
      au_profilePicture = ''picA'', au_lastSeen = 0, au_status = ''online''\<rparr>)"









definition alice_in_r1 :: state where
  "alice_in_r1 = \<lparr>activeUsers = [alice_online], chatRooms = [(''r1'', [StrId ''guest-1''])],
                  messageTimestamps = [], typingUsers = [], messages = []\<rparr>"

definition alice_busy :: state where
  "alice_busy = alice_in_r1\<lparr>messageTimestamps := [(StrId ''guest-1'', [1, 2, 3, 4, 5])]\<rparr>"



definition msg_at :: "nat \<Rightarrow> message" where
  "msg_at i = \<lparr>m_id = ''m'', m_content = ''hi'', m_sender = StrId ''guest-1'',
               m_senderType = ''guest'', m_senderName = ''Guest-st-1'', m_senderAvatar = ''picA'',
               m_room = ''r1'', m_type = ''group'', m_createdAt = int i\<rparr>"

definition stored_51 :: "message list" where
  "stored_51 = map msg_at [100..<151]"

definition busy_room :: state where
  "busy_room = alice_in_r1\<lparr>messages := stored_51\<rparr>"

text \<open>
  The history as the specification words it: the last 50 messages of the room, oldest
  first.
\<close>

definition last_50_history :: "message list \<Rightarrow> string \<Rightarrow> message list" where
  "last_50_history store room =
     (let ordered = sort_key m_createdAt (filter (\<lambda>m. m_room m = room) store)
      in drop (length ordered - 50) ordered)"

section \<open>The authentication middleware degrades to guest\<close>

text \<open>
  C6. A connection that presents a token which \<open>jwt.verify\<close> refuses is accepted as a
  guest: its id is \<open>guest-\<close> followed by the clock reading, its name \<open>Guest-\<close> followed by
  the last four characters of the id, its picture the avatar address built from the name.
  The middleware rejects a connection in two cases and no other: the token verifies and
  the user lookup resolves to no record (\<open>User not found\<close>), or the handshake carries no
  \<open>auth\<close> object at all (\<open>Server error\<close>).
\<close>

theorem auth_degrade_policy:
  "(auth = Some (Some tok) \<and> tok \<noteq> [] \<and> verify tok = VerifyThrows \<longrightarrow>
      auth_middleware sid auth now verify findById =
        Accept \<lparr>sock_id = sid, userId = StrId (''guest-'' @ show_int now),
                user = \<lparr>u_id = StrId (''guest-'' @ show_int now),
                        u_username =
                          ''Guest-'' @ drop (length (''guest-'' @ show_int now) - 4)
                                         (''guest-'' @ show_int now),
                        u_profilePicture =
                          ''https://ui-avatars.com/api/?name='' @
                          (''Guest-'' @ drop (length (''guest-'' @ show_int now) - 4)
                                          (''guest-'' @ show_int now)) @
                          ''&background=random''\<rparr>\<rparr>) \<and>
   (auth_middleware sid auth now verify findById = Reject e \<longleftrightarrow>
      (auth = None \<and> e = ''Authentication error: Server error'') \<or>
      (\<exists>t did. auth = Some (Some t) \<and> t \<noteq> [] \<and> verify t = Decoded did \<and>
               findById did = NotFound \<and> e = ''Authentication error: User not found''))"
  by (auto simp: auth_middleware_def truthy_def guest_socket_def Let_def
           split: option.splits verify_result.splits lookup_result.splits)

theorem auth_degrade_policy_witness:
  "auth_middleware ''s1'' (Some (Some ''tampered'')) 5 (\<lambda>_. VerifyThrows) (\<lambda>_. NotFound)
     = Accept \<lparr>sock_id = ''s1'', userId = StrId ''guest-5'',
               user = \<lparr>u_id = StrId ''guest-5'', u_username = ''Guest-st-5'',
                       u_profilePicture =
                         ''https://ui-avatars.com/api/?name=Guest-st-5&background=random''\<rparr>\<rparr> \<and>
   auth_middleware ''s1'' (Some (Some ''good'')) 5 (\<lambda>_. Decoded ''u1'') (\<lambda>_. NotFound)
     = Reject ''Authentication error: User not found''"
  using auth_degrade_policy [of "Some (Some ''tampered'')" "''tampered''" "\<lambda>_. VerifyThrows" "''s1''" 5
          "\<lambda>_. NotFound" "''''"]
        auth_degrade_policy [of "Some (Some ''good'')" "''good''" "\<lambda>_. Decoded ''u1''" "''s1''" 5
          "\<lambda>_. NotFound" "''Authentication error: User not found''"]
  by (simp add: show_int_def digits.simps)

theorem handshake_without_auth_rejected:
  "auth_middleware ''s1'' None 5 (\<lambda>_. VerifyThrows) (\<lambda>_. NotFound)
     = Reject ''Authentication error: Server error'' \<and>
   \<not> (\<exists>t did. (\<lambda>_. VerifyThrows) (t :: string) = Decoded did \<and>
              (\<lambda>_. NotFound) (did :: string) = NotFound)"
  by (simp add: auth_middleware_def)

section \<open>Group messages: persistence before broadcast\<close>

text \<open>
  C1. Whatever a \<open>groupMessage\<close> event does, a \<open>groupMessage\<close> broadcast occurs only when
  the save succeeded: it is addressed to the event's room and carries the id and
  timestamp of the document just appended to the store. When the save fails the store
  is unchanged and the only effect is one error event to the sender's socket, which, once
  the checks and the rate limiter were passed by a sender with a string id, carries the
  store's error message. The handler calls \<open>save\<close> once: the outcome is consumed a single
  time.
\<close>

theorem broadcast_only_after_save:
  assumes "groupMessage s sock r c now saved = (s', evs)"
  shows "(\<forall>tg md. Emit tg (GroupMessage md) \<in> set evs \<longrightarrow>
            (\<exists>room mid created m.
               r = Some room \<and> tg = ToRoom room \<and> saved = Saved mid created \<and>
               messages s' = messages s @ [m] \<and> m_room m = room \<and> m_sender m = userId sock \<and>
               m_id m = mid \<and> m_createdAt m = created \<and>
               md_id md = mid \<and> md_createdAt md = created \<and> md_content md = m_content m \<and>
               c = Some (m_content m)))
       \<and> (\<forall>e. saved = SaveFailed e \<longrightarrow>
            messages s' = messages s \<and>
            (\<exists>msg. evs = [Emit (ToSocket (sock_id sock)) (ErrorEv msg)]) \<and>
            (\<forall>idstr. u_id (user sock) = StrId idstr \<and> s' \<noteq> s \<longrightarrow>
               evs = [Emit (ToSocket (sock_id sock)) (ErrorEv e)]))"
  using assms
  by (auto simp: groupMessage_def Let_def error_to_def
           split: option.splits if_splits ident.splits save_result.splits)

theorem broadcast_only_after_save_witness:
  "groupMessage alice_in_r1 alice (Some ''r1'') (Some ''hi'') 5 (SaveFailed ''store down'') =
     (alice_in_r1\<lparr>messageTimestamps := [(StrId ''guest-1'', [5])]\<rparr>,
      [Emit (ToSocket ''sockA'') (ErrorEv ''store down'')]) \<and>
   messages (alice_in_r1\<lparr>messageTimestamps := [(StrId ''guest-1'', [5])]\<rparr>) = messages alice_in_r1 \<and>
   (\<exists>s' md. groupMessage alice_in_r1 alice (Some ''r1'') (Some ''hi'') 5 (Saved ''m1'' 6) =
       (s', [Emit (ToRoom ''r1'') (GroupMessage md)]) \<and>
       (\<exists>m. messages s' = messages alice_in_r1 @ [m] \<and> m_id m = ''m1'' \<and> md_id md = ''m1''))"
proof -
  have failed: "groupMessage alice_in_r1 alice (Some ''r1'') (Some ''hi'') 5 (SaveFailed ''store down'') =
     (alice_in_r1\<lparr>messageTimestamps := [(StrId ''guest-1'', [5])]\<rparr>,
      [Emit (ToSocket ''sockA'') (ErrorEv ''store down'')])"
    by (simp add: groupMessage_def alice_in_r1_def alice_def Let_def error_to_def timestamps_of_def)
  obtain s' md where saved:
    "groupMessage alice_in_r1 alice (Some ''r1'') (Some ''hi'') 5 (Saved ''m1'' 6) =
       (s', [Emit (ToRoom ''r1'') (GroupMessage md)])"
    by (simp add: groupMessage_def alice_in_r1_def alice_def Let_def error_to_def timestamps_of_def)
  from broadcast_only_after_save [OF failed]
  have a: "messages (alice_in_r1\<lparr>messageTimestamps := [(StrId ''guest-1'', [5])]\<rparr>) = messages alice_in_r1"
    by simp
  from broadcast_only_after_save [OF saved]
  have b: "\<exists>m. messages s' = messages alice_in_r1 @ [m] \<and> m_id m = ''m1'' \<and> md_id md = ''m1''"
    by auto
  from failed a saved b show ?thesis by blast
qed

section \<open>Failed group messages leave the state alone\<close>

text \<open>
  C10. A \<open>groupMessage\<close> event that fails one of the four checks (room or content
  missing or empty, room unknown, sender not a member, rate limit reached) returns the
  state it was given, store and timestamp sequences included, and emits exactly one error
  event, to the sender's socket, with the message of the failed check.
\<close>

theorem failed_group_message_changes_nothing:
  "(\<not> truthy r \<or> \<not> truthy c \<longrightarrow>
      groupMessage s sock r c now saved =
        (s, [Emit (ToSocket (sock_id sock)) (ErrorEv ''Room and content are required'')])) \<and>
   (truthy r \<and> truthy c \<and> r = Some room \<and> map_of (chatRooms s) room = None \<longrightarrow>
      groupMessage s sock r c now saved =
        (s, [Emit (ToSocket (sock_id sock)) (ErrorEv ''Room does not exist'')])) \<and>
   (truthy r \<and> truthy c \<and> r = Some room \<and> map_of (chatRooms s) room = Some members \<and>
    userId sock \<notin> set members \<longrightarrow>
      groupMessage s sock r c now saved =
        (s, [Emit (ToSocket (sock_id sock)) (ErrorEv ''User is not in this room'')])) \<and>
   (truthy r \<and> truthy c \<and> r = Some room \<and> map_of (chatRooms s) room = Some members \<and>
    userId sock \<in> set members \<and>
    5 \<le> length (filter (\<lambda>time. now - time < 1000) (timestamps_of s (userId sock))) \<longrightarrow>
      groupMessage s sock r c now saved =
        (s, [Emit (ToSocket (sock_id sock)) (ErrorEv ''Message rate limit exceeded'')]))"
  by (auto simp: groupMessage_def Let_def error_to_def truthy_def split: option.splits)

theorem failed_group_message_changes_nothing_witness:
  "groupMessage alice_in_r1 alice None (Some ''hi'') 9 (Saved ''m'' 9) =
     (alice_in_r1, [Emit (ToSocket ''sockA'') (ErrorEv ''Room and content are required'')]) \<and>
   groupMessage alice_in_r1 alice (Some ''r1'') (Some '''') 9 (Saved ''m'' 9) =
     (alice_in_r1, [Emit (ToSocket ''sockA'') (ErrorEv ''Room and content are required'')]) \<and>
   groupMessage alice_in_r1 alice (Some ''r2'') (Some ''hi'') 9 (Saved ''m'' 9) =
     (alice_in_r1, [Emit (ToSocket ''sockA'') (ErrorEv ''Room does not exist'')]) \<and>
   groupMessage alice_in_r1 bob (Some ''r1'') (Some ''hi'') 9 (Saved ''m'' 9) =
     (alice_in_r1, [Emit (ToSocket ''sockB'') (ErrorEv ''User is not in this room'')]) \<and>
   groupMessage alice_busy alice (Some ''r1'') (Some ''hi'') 9 (Saved ''m'' 9) =
     (alice_busy, [Emit (ToSocket ''sockA'') (ErrorEv ''Message rate limit exceeded'')])"
  using failed_group_message_changes_nothing
          [of None "Some ''hi''" alice_in_r1 alice 9 "Saved ''m'' 9" "''r1''" "[]"]
        failed_group_message_changes_nothing
          [of "Some ''r1''" "Some ''''" alice_in_r1 alice 9 "Saved ''m'' 9" "''r1''" "[]"]
        failed_group_message_changes_nothing
          [of "Some ''r2''" "Some ''hi''" alice_in_r1 alice 9 "Saved ''m'' 9" "''r2''" "[]"]
        failed_group_message_changes_nothing
          [of "Some ''r1''" "Some ''hi''" alice_in_r1 bob 9 "Saved ''m'' 9" "''r1''" "[StrId ''guest-1'']"]
        failed_group_message_changes_nothing
          [of "Some ''r1''" "Some ''hi''" alice_busy alice 9 "Saved ''m'' 9" "''r1''" "[StrId ''guest-1'']"]
  by (simp add: truthy_def alice_in_r1_def alice_busy_def alice_def bob_def timestamps_of_def)

section \<open>The room table along a run\<close>

lemma map_of_map_keyed:
  "map_of (map (\<lambda>(k, v). (k, f k v)) xs) k = map_option (f k) (map_of xs k)"
  by (induction xs) auto

lemma leave_previous_rooms:
  "fst (leave_previous sock room now rooms) =
     map (\<lambda>(roomId, members).
            (roomId, if roomId \<noteq> room then removeAll (userId sock) members else members)) rooms"
  by (induction rooms) (auto split: prod.splits)


lemma leave_all_rooms:
  "fst (leave_all sock now rooms) =
     map (\<lambda>(roomId, members). (roomId, removeAll (userId sock) members)) rooms"
  by (induction rooms) (auto split: prod.splits)


lemma keys_leave_previous [simp]:
  "map fst (fst (leave_previous sock room now rooms)) = map fst rooms"
  by (simp add: leave_previous_rooms case_prod_unfold comp_def)

lemma keys_leave_all [simp]:
  "map fst (fst (leave_all sock now rooms)) = map fst rooms"
  by (simp add: leave_all_rooms case_prod_unfold comp_def)

lemma chatRooms_joinRoom:
  "chatRooms (fst (joinRoom s sock room now up)) = joined_rooms sock room (chatRooms s)"
  by (simp add: joinRoom_def joined_rooms_def Let_def case_prod_unfold leave_previous_rooms
           split: option.splits)

lemma map_of_joined_rooms:
  "map_of (joined_rooms sock room rooms) r =
     (if r = room
      then Some (set_add (userId sock) (case map_of rooms room of None \<Rightarrow> [] | Some ms \<Rightarrow> ms))
      else map_option (removeAll (userId sock)) (map_of rooms r))"
  by (auto simp: joined_rooms_def Let_def has_def update_conv' map_of_map_keyed
           split: option.splits)

lemma keys_joined_rooms:
  "distinct (map fst rooms) \<Longrightarrow> distinct (map fst (joined_rooms sock room rooms))"
  by (auto simp: joined_rooms_def Let_def case_prod_unfold comp_def intro!: distinct_update)

lemma single_room_map:
  "single_room rooms \<longleftrightarrow>
     distinct (map fst rooms) \<and>
     (\<forall>r1 r2 ms1 ms2 u. map_of rooms r1 = Some ms1 \<longrightarrow> map_of rooms r2 = Some ms2 \<longrightarrow>
         u \<in> set ms1 \<longrightarrow> u \<in> set ms2 \<longrightarrow> r1 = r2)"
proof (cases "distinct (map fst rooms)")
  case True
  then have "\<And>r ms. ((r, ms) \<in> set rooms) = (map_of rooms r = Some ms)" by simp
  then show ?thesis unfolding single_room_def by (simp add: True Ball_def) blast
next
  case False
  then show ?thesis by (simp add: single_room_def)
qed

lemma members_distinct_map:
  "distinct (map fst rooms) \<Longrightarrow>
     members_distinct rooms \<longleftrightarrow> (\<forall>r ms. map_of rooms r = Some ms \<longrightarrow> distinct ms)"
  unfolding members_distinct_def by (simp add: Ball_def)

lemma set_set_add [simp]: "set (set_add x xs) = insert x (set xs)"
  by (auto simp: set_add_def)

lemma distinct_set_add [simp]: "distinct (set_add x xs) = distinct xs"
  by (simp add: set_add_def)

lemma single_room_joined:
  assumes "single_room rooms"
  shows "single_room (joined_rooms sock room rooms)"
proof -
  from assms have d: "distinct (map fst rooms)"
    and u: "\<And>r1 r2 ms1 ms2 u. map_of rooms r1 = Some ms1 \<Longrightarrow> map_of rooms r2 = Some ms2 \<Longrightarrow>
         u \<in> set ms1 \<Longrightarrow> u \<in> set ms2 \<Longrightarrow> r1 = r2"
    unfolding single_room_map by blast+
  have "r1 = r2"
    if a: "map_of (joined_rooms sock room rooms) r1 = Some ms1"
      and b: "map_of (joined_rooms sock room rooms) r2 = Some ms2"
      and m1: "v \<in> set ms1" and m2: "v \<in> set ms2" for r1 r2 ms1 ms2 v
  proof (rule ccontr)
    assume ne: "r1 \<noteq> r2"
    have other: False
      if "ra \<noteq> room" "map_of (joined_rooms sock room rooms) ra = Some msa" "v \<in> set msa"
         "map_of (joined_rooms sock room rooms) room = Some msb" "v \<in> set msb" for ra msa msb
    proof -
      from that(1,2,3) obtain old where o: "map_of rooms ra = Some old" "v \<in> set old" "v \<noteq> userId sock"
        by (auto simp: map_of_joined_rooms)
      from that(4,5) o(3) obtain cur where c: "map_of rooms room = Some cur" "v \<in> set cur"
        by (auto simp: map_of_joined_rooms split: option.splits)
      from u [OF o(1) c(1) o(2) c(2)] that(1) show False by simp
    qed
    show False
    proof (cases "r1 = room")
      case True
      with ne have "r2 \<noteq> room" by simp
      from other [OF this b m2] a m1 True show False by simp
    next
      case r1: False
      show False
      proof (cases "r2 = room")
        case True
        from other [OF r1 a m1] b m2 True show False by simp
      next
        case False
        from a r1 obtain o1 where o1: "map_of rooms r1 = Some o1" "v \<in> set o1"
          using m1 by (auto simp: map_of_joined_rooms)
        from b False obtain o2 where o2: "map_of rooms r2 = Some o2" "v \<in> set o2"
          using m2 by (auto simp: map_of_joined_rooms)
        from u [OF o1(1) o2(1) o1(2) o2(2)] ne show False by simp
      qed
    qed
  qed
  with keys_joined_rooms [OF d] show ?thesis
    unfolding single_room_map by blast
qed

lemma members_distinct_joined:
  assumes "distinct (map fst rooms)" "members_distinct rooms"
  shows "members_distinct (joined_rooms sock room rooms)"
  using assms
  by (auto simp: members_distinct_map keys_joined_rooms map_of_joined_rooms distinct_removeAll
           split: if_splits option.splits)

lemma chatRooms_leaveRoom:
  "chatRooms (fst (leaveRoom s sock roomId now)) =
     (case map_of (chatRooms s) roomId of
        None \<Rightarrow> chatRooms s
      | Some members \<Rightarrow>
          if removeAll (userId sock) members = [] then AList.delete roomId (chatRooms s)
          else AList.update roomId (removeAll (userId sock) members) (chatRooms s))"
  by (simp add: leaveRoom_def Let_def split: option.splits)

lemma single_room_shrink:
  assumes inv: "single_room rooms" and d': "distinct (map fst rooms')"
    and sub: "\<And>r ms'. map_of rooms' r = Some ms' \<Longrightarrow> \<exists>ms. map_of rooms r = Some ms \<and> set ms' \<subseteq> set ms"
  shows "single_room rooms'"
proof -
  from inv have u: "\<And>r1 r2 ms1 ms2 u. map_of rooms r1 = Some ms1 \<Longrightarrow> map_of rooms r2 = Some ms2 \<Longrightarrow>
         u \<in> set ms1 \<Longrightarrow> u \<in> set ms2 \<Longrightarrow> r1 = r2"
    unfolding single_room_map by blast
  have "r1 = r2"
    if a: "map_of rooms' r1 = Some ms1" and b: "map_of rooms' r2 = Some ms2"
      and m1: "v \<in> set ms1" and m2: "v \<in> set ms2" for r1 r2 ms1 ms2 v
  proof -
    from sub [OF a] obtain o1 where o1: "map_of rooms r1 = Some o1" "set ms1 \<subseteq> set o1" by blast
    from sub [OF b] obtain o2 where o2: "map_of rooms r2 = Some o2" "set ms2 \<subseteq> set o2" by blast
    from m1 o1(2) have "v \<in> set o1" by blast
    moreover from m2 o2(2) have "v \<in> set o2" by blast
    ultimately show ?thesis using u [OF o1(1) o2(1)] by blast
  qed
  with d' show ?thesis unfolding single_room_map by blast
qed

lemma single_room_leaveRoom:
  assumes "single_room (chatRooms s)"
  shows "single_room (chatRooms (fst (leaveRoom s sock roomId now)))"
proof (rule single_room_shrink [OF assms])
  from assms have d: "distinct (map fst (chatRooms s))" by (simp add: single_room_def)
  then show "distinct (map fst (chatRooms (fst (leaveRoom s sock roomId now))))"
    by (simp add: chatRooms_leaveRoom distinct_delete distinct_update split: option.splits)
next
  fix r ms'
  assume "map_of (chatRooms (fst (leaveRoom s sock roomId now))) r = Some ms'"
  then show "\<exists>ms. map_of (chatRooms s) r = Some ms \<and> set ms' \<subseteq> set ms"
    by (auto simp: chatRooms_leaveRoom delete_conv' update_conv' split: option.splits if_splits)
qed

lemma chatRooms_disconnect:
  "chatRooms (fst (disconnect s sock now)) =
     map (\<lambda>(roomId, members). (roomId, removeAll (userId sock) members)) (chatRooms s)"
  by (simp add: disconnect_def Let_def case_prod_unfold leave_all_rooms)

lemma single_room_disconnect:
  assumes "single_room (chatRooms s)"
  shows "single_room (chatRooms (fst (disconnect s sock now)))"
proof (rule single_room_shrink [OF assms])
  from assms have d: "distinct (map fst (chatRooms s))" by (simp add: single_room_def)
  then show "distinct (map fst (chatRooms (fst (disconnect s sock now))))"
    by (simp add: chatRooms_disconnect case_prod_unfold comp_def)
next
  fix r ms'
  assume "map_of (chatRooms (fst (disconnect s sock now))) r = Some ms'"
  then show "\<exists>ms. map_of (chatRooms s) r = Some ms \<and> set ms' \<subseteq> set ms"
    by (auto simp: chatRooms_disconnect map_of_map)
qed

lemma members_distinct_leaveRoom:
  assumes "distinct (map fst (chatRooms s))" "members_distinct (chatRooms s)"
  shows "members_distinct (chatRooms (fst (leaveRoom s sock roomId now)))"
proof -
  from assms(1) have "distinct (map fst (chatRooms (fst (leaveRoom s sock roomId now))))"
    by (simp add: chatRooms_leaveRoom distinct_delete distinct_update split: option.splits)
  then show ?thesis
    using assms
    by (auto simp del: map_of_eq_Some_iff
             simp: members_distinct_map chatRooms_leaveRoom delete_conv' update_conv' distinct_removeAll
             split: option.splits if_splits)
qed

lemma members_distinct_disconnect:
  assumes "distinct (map fst (chatRooms s))" "members_distinct (chatRooms s)"
  shows "members_distinct (chatRooms (fst (disconnect s sock now)))"
  using assms
  by (auto simp: members_distinct_def chatRooms_disconnect distinct_removeAll)

lemma chatRooms_groupMessage [simp]:
  "chatRooms (fst (groupMessage s sock r c now saved)) = chatRooms s"
  by (simp add: groupMessage_def Let_def
           split: option.splits ident.splits save_result.splits)

lemma chatRooms_typing [simp]:
  "chatRooms (fst (typing s sock r b)) = chatRooms s"
  by (simp add: typing_def Let_def split: option.splits)

lemma chatRooms_other [simp]:
  "chatRooms (fst (connect s sock now)) = chatRooms s"
  "chatRooms (fst (stopTyping s sock room)) = chatRooms s"
  "chatRooms (fst (privateMessage s sockets sock to body now)) = chatRooms s"
  by (simp_all add: connect_def stopTyping_def privateMessage_def Let_def split: option.splits)

lemma rooms_ok_step:
  assumes "rooms_ok (chatRooms s)"
  shows "rooms_ok (chatRooms (fst (step s e)))"
proof -
  from assms have sr: "single_room (chatRooms s)" and md: "members_distinct (chatRooms s)"
    and d: "distinct (map fst (chatRooms s))"
    by (simp_all add: rooms_ok_def single_room_def)
  show ?thesis
  proof (cases e)
    case (JoinRoom sock room now up)
    then show ?thesis
      using single_room_joined [OF sr] members_distinct_joined [OF d md]
      by (simp add: rooms_ok_def chatRooms_joinRoom)
  next
    case (LeaveRoom sock roomId now)
    then show ?thesis
      using single_room_leaveRoom [OF sr] members_distinct_leaveRoom [OF d md]
      by (simp add: rooms_ok_def)
  next
    case (Disconnect sock now)
    then show ?thesis
      using single_room_disconnect [OF sr] members_distinct_disconnect [OF d md]
      by (simp add: rooms_ok_def)
  qed (use assms in simp_all)
qed

lemma rooms_ok_run:
  "rooms_ok (chatRooms s) \<Longrightarrow> rooms_ok (chatRooms (run s es))"
  by (induction es arbitrary: s) (simp_all add: rooms_ok_step)

lemma rooms_ok_init: "rooms_ok (chatRooms init)"
  by (simp add: rooms_ok_def single_room_def members_distinct_def init_def)






section \<open>Empty rooms\<close>

text \<open>
  C7. The last member leaving by \<open>disconnect\<close>, or by joining another room, leaves the
  room's entry in the table with an empty member list; only \<open>leaveRoom\<close> deletes it.
\<close>

theorem empty_room_retained:
  "chatRooms (fst (disconnect alice_in_r1 alice 9)) = [(''r1'', [])] \<and>
   chatRooms (fst (joinRoom alice_in_r1 alice ''r2'' 9 True)) = [(''r1'', []), (''r2'', [StrId ''guest-1''])] \<and>
   chatRooms (fst (leaveRoom alice_in_r1 alice ''r1'' 9)) = []"
  by (simp add: chatRooms_disconnect chatRooms_joinRoom chatRooms_leaveRoom joined_rooms_def
        alice_in_r1_def alice_def has_def set_add_def Let_def)

section \<open>Joining a room\<close>

lemma leave_previous_noop:
  assumes "\<forall>(r, ms) \<in> set rooms. r \<noteq> room \<longrightarrow> userId sock \<notin> set ms"
  shows "leave_previous sock room now rooms = (rooms, [])"
  using assms by (induction rooms) auto

lemma fst_joinRoom:
  "fst (joinRoom s sock room now up) = s\<lparr>chatRooms := joined_rooms sock room (chatRooms s)\<rparr>"
  by (simp add: joinRoom_def joined_rooms_def Let_def case_prod_unfold leave_previous_rooms
           split: option.splits)

lemma snd_joinRoom:
  "snd (joinRoom s sock room now up) =
     snd (leave_previous sock room now (chatRooms s)) @
     (let members = (case map_of (joined_rooms sock room (chatRooms s)) room of
                       None \<Rightarrow> [] | Some ms \<Rightarrow> ms)
      in if \<not> up then [join_failed sock]
         else case (participants (activeUsers s) members, room_members (activeUsers s) members) of
                (Some ps, Some rs) \<Rightarrow>
                    [Emit (ToSocket (sock_id sock)) (ChatHistory (find_history (messages s) room) ps),
                     Emit (ToRoom room) (UserJoined (userId sock) (u_username (user sock)) now),
                     Emit (ToRoom room) (UpdateParticipants rs)]
              | _ \<Rightarrow> [join_failed sock])"
  by (simp add: joinRoom_def joined_rooms_def Let_def case_prod_unfold leave_previous_rooms
        update_conv' split: option.splits)

lemma joined_rooms_member_noop:
  assumes ok: "rooms_ok rooms" and r: "map_of rooms room = Some ms" and m: "userId sock \<in> set ms"
  shows "joined_rooms sock room rooms = rooms"
    and "leave_previous sock room now rooms = (rooms, [])"
proof -
  from ok have d: "distinct (map fst rooms)" and sr: "single_room rooms"
    by (simp_all add: rooms_ok_def single_room_def)
  have others: "\<forall>(r', ms') \<in> set rooms. r' \<noteq> room \<longrightarrow> userId sock \<notin> set ms'"
  proof (clarify)
    fix r' ms'
    assume "(r', ms') \<in> set rooms" "r' \<noteq> room" "userId sock \<in> set ms'"
    with d have "map_of rooms r' = Some ms'" by simp
    with sr r m \<open>userId sock \<in> set ms'\<close> have "r' = room"
      unfolding single_room_map by blast
    with \<open>r' \<noteq> room\<close> show False by simp
  qed
  show lp: "leave_previous sock room now rooms = (rooms, [])" for now
    by (rule leave_previous_noop [OF others])
  from lp [of 0] have "map (\<lambda>(roomId, members).
            (roomId, if roomId \<noteq> room then removeAll (userId sock) members else members)) rooms = rooms"
    using leave_previous_rooms [of sock room 0 rooms] by simp
  then show "joined_rooms sock room rooms = rooms"
    using r m by (simp add: joined_rooms_def Let_def has_def set_add_def update_triv)
qed

lemma count_list_distinct:
  "distinct xs \<Longrightarrow> x \<in> set xs \<Longrightarrow> count_list xs x = 1"
  by (induction xs) auto

text \<open>
  C9. In a state reached by a run, a \<open>joinRoom\<close> by a participant who already is a
  member of the requested room leaves the room table as it was, the member list holds
  the id once, no \<open>userLeft\<close> is emitted, and the effects are either the single error
  event or the history snapshot followed by one \<open>userJoined\<close> and one
  \<open>updateParticipants\<close> broadcast.
\<close>

theorem rejoin_same_room_idempotent:
  assumes "map_of (chatRooms (run init es)) room = Some ms" and "userId sock \<in> set ms"
  shows "chatRooms (fst (joinRoom (run init es) sock room now up)) = chatRooms (run init es) \<and>
         count_list ms (userId sock) = 1 \<and>
         (snd (joinRoom (run init es) sock room now up) = [join_failed sock] \<or>
          (\<exists>ps rs. snd (joinRoom (run init es) sock room now up) =
             [Emit (ToSocket (sock_id sock)) (ChatHistory (find_history (messages (run init es)) room) ps),
              Emit (ToRoom room) (UserJoined (userId sock) (u_username (user sock)) now),
              Emit (ToRoom room) (UpdateParticipants rs)]))"
proof -
  let ?s = "run init es"
  have ok: "rooms_ok (chatRooms ?s)" by (rule rooms_ok_run [OF rooms_ok_init])
  note noop = joined_rooms_member_noop [OF ok assms]
  from ok have d: "distinct (map fst (chatRooms ?s))" and md: "members_distinct (chatRooms ?s)"
    by (simp_all add: rooms_ok_def single_room_def)
  from md assms(1) have "distinct ms" by (simp add: members_distinct_map [OF d])
  with assms(2) have one: "count_list ms (userId sock) = 1"
    by (simp add: count_list_distinct)
  have rooms: "chatRooms (fst (joinRoom ?s sock room now up)) = chatRooms ?s"
    by (simp add: chatRooms_joinRoom noop(1))
  have evs: "snd (joinRoom ?s sock room now up) = [join_failed sock] \<or>
          (\<exists>ps rs. snd (joinRoom ?s sock room now up) =
             [Emit (ToSocket (sock_id sock)) (ChatHistory (find_history (messages ?s) room) ps),
              Emit (ToRoom room) (UserJoined (userId sock) (u_username (user sock)) now),
              Emit (ToRoom room) (UpdateParticipants rs)])"
    by (simp add: snd_joinRoom noop Let_def split: option.splits)
  from rooms one evs show ?thesis by blast
qed

theorem rejoin_same_room_idempotent_witness:
  "map_of (chatRooms (run init [Connect alice 0, JoinRoom alice ''r1'' 1 True])) ''r1''
     = Some [StrId ''guest-1''] \<and>
   chatRooms (fst (joinRoom (run init [Connect alice 0, JoinRoom alice ''r1'' 1 True]) alice ''r1'' 5 True))
     = chatRooms (run init [Connect alice 0, JoinRoom alice ''r1'' 1 True]) \<and>
   count_list [StrId ''guest-1''] (userId alice) = 1"
proof -
  have r: "map_of (chatRooms (run init [Connect alice 0, JoinRoom alice ''r1'' 1 True])) ''r1''
     = Some [StrId ''guest-1'']"
    by (simp add: chatRooms_joinRoom joined_rooms_def connect_def init_def alice_def has_def
          set_add_def Let_def)
  have m: "userId alice \<in> set [StrId ''guest-1'']" by (simp add: alice_def)
  from rejoin_same_room_idempotent [OF r m, of 5 True] r show ?thesis by blast
qed




lemma participants_Some:
  "participants au members = Some ps \<Longrightarrow>
     map fst ps = members \<and>
     (\<forall>(uid, name, pic, status) \<in> set ps.
        \<exists>usr. map_of au uid = Some usr \<and> name = au_username usr \<and>
              pic = au_profilePicture usr \<and> status = au_status usr)"
  unfolding participants_def
  by (induction members arbitrary: ps) (auto split: option.splits)

lemma history_oldest_first:
  fixes store :: "message list" and room :: string
  defines "room_msgs \<equiv> filter (\<lambda>m. m_room m = room) store"
  defines "hist \<equiv> find_history store room"
  shows "sorted (map m_createdAt hist)"
    and "length hist = min 50 (length room_msgs)"
    and "mset hist \<subseteq># mset room_msgs"
    and "\<forall>old \<in> set hist. \<forall>m \<in># mset room_msgs - mset hist. m_createdAt old \<le> m_createdAt m"
proof -
  let ?ordered = "sort_key m_createdAt room_msgs"
  have h: "hist = take 50 ?ordered" by (simp add: hist_def room_msgs_def find_history_def)
  have split: "?ordered = hist @ drop 50 ?ordered" by (simp add: h)
  have srt: "sorted (map m_createdAt (hist @ drop 50 ?ordered))"
    using sorted_sort_key [of m_createdAt room_msgs] split by simp
  then show "sorted (map m_createdAt hist)" by (simp add: sorted_append)
  show "length hist = min 50 (length room_msgs)" by (simp add: h min.commute)
  have ms: "mset room_msgs = mset hist + mset (drop 50 ?ordered)"
    using arg_cong [OF split, of mset] by simp
  then show "mset hist \<subseteq># mset room_msgs" by simp
  from ms have rest: "mset room_msgs - mset hist = mset (drop 50 ?ordered)" by simp
  show "\<forall>old \<in> set hist. \<forall>m \<in># mset room_msgs - mset hist. m_createdAt old \<le> m_createdAt m"
    using srt unfolding rest by (auto simp: sorted_append)
qed

lemma stored_51_ordered:
  "sort_key m_createdAt (filter (\<lambda>m. m_room m = ''r1'') stored_51) = stored_51"
proof -
  have f: "filter (\<lambda>m. m_room m = ''r1'') stored_51 = stored_51"
    by (simp add: stored_51_def filter_map comp_def msg_at_def)
  have "sorted_wrt (\<lambda>i j. m_createdAt (msg_at i) \<le> m_createdAt (msg_at j)) [100..<151]"
    by (rule sorted_wrt_mono_rel [OF _ sorted_wrt_upt]) (simp add: msg_at_def)
  then have "sorted (map m_createdAt stored_51)"
    unfolding stored_51_def by (simp only: sorted_map sorted_wrt_map)
  then show ?thesis unfolding f by (rule sort_key_id_if_sorted)
qed

lemma stored_51_parts:
  "take 50 stored_51 = butlast stored_51"
  "drop (length stored_51 - 50) stored_51 = tl stored_51"
proof -
  have len: "length stored_51 = 51" by (simp add: stored_51_def)
  show "take 50 stored_51 = butlast stored_51" by (simp add: butlast_conv_take len)
  have "drop (Suc 0) stored_51 = tl stored_51" by (simp add: drop_Suc)
  then show "drop (length stored_51 - 50) stored_51 = tl stored_51" by (simp add: len)
qed

lemma busy_room_messages: "messages busy_room = stored_51"
  by (simp add: busy_room_def)

lemma busy_room_join:
  "snd (joinRoom busy_room alice ''r1'' 200 True) =
     [Emit (ToSocket ''sockA'')
        (ChatHistory (find_history (messages busy_room) ''r1'')
           [(StrId ''guest-1'', ''Guest-st-1'', ''picA'', ''online'')]),
      Emit (ToRoom ''r1'') (UserJoined (StrId ''guest-1'') ''Guest-st-1'' 200),
      Emit (ToRoom ''r1'') (UpdateParticipants [(StrId ''guest-1'', ''Guest-st-1'', ''picA'')])]"
  by (simp add: snd_joinRoom joined_rooms_def busy_room_def alice_in_r1_def alice_def
        alice_online_def has_def set_add_def Let_def participants_def room_members_def)

text \<open>
  C4. A \<open>joinRoom\<close> that raises no error sends the joining socket one \<open>chatHistory\<close>
  event, followed by the \<open>userJoined\<close> and \<open>updateParticipants\<close> broadcasts. Its
  participant list is the room's member list with each member's presence data. Its
  messages are the first 50 of the room's stored messages in ascending \<open>createdAt\<close>
  order: at most 50, all from the room, and no message left out is older than one
  included. With more than 50 stored these are the 50 oldest, not the 50 most recent.
\<close>

theorem join_history_snapshot:
  assumes "join_failed sock \<notin> set (snd (joinRoom s sock room now up))"
  shows "\<exists>ps rs.
           snd (joinRoom s sock room now up) =
             snd (leave_previous sock room now (chatRooms s)) @
             [Emit (ToSocket (sock_id sock)) (ChatHistory (find_history (messages s) room) ps),
              Emit (ToRoom room) (UserJoined (userId sock) (u_username (user sock)) now),
              Emit (ToRoom room) (UpdateParticipants rs)] \<and>
           map_of (chatRooms (fst (joinRoom s sock room now up))) room = Some (map fst ps) \<and>
           (\<forall>(uid, name, pic, status) \<in> set ps.
              \<exists>usr. map_of (activeUsers s) uid = Some usr \<and> name = au_username usr \<and>
                    pic = au_profilePicture usr \<and> status = au_status usr) \<and>
           find_history (messages s) room =
             take 50 (sort_key m_createdAt (filter (\<lambda>m. m_room m = room) (messages s))) \<and>
           sorted (map m_createdAt (find_history (messages s) room)) \<and>
           length (find_history (messages s) room) =
             min 50 (length (filter (\<lambda>m. m_room m = room) (messages s))) \<and>
           mset (find_history (messages s) room) \<subseteq># mset (filter (\<lambda>m. m_room m = room) (messages s)) \<and>
           (\<forall>old \<in> set (find_history (messages s) room).
              \<forall>m \<in># mset (filter (\<lambda>m. m_room m = room) (messages s))
                       - mset (find_history (messages s) room).
                 m_createdAt old \<le> m_createdAt m)"
proof -
  let ?members = "case map_of (joined_rooms sock room (chatRooms s)) room of
                    None \<Rightarrow> [] | Some ms \<Rightarrow> ms"
  from assms obtain ps rs where
    ok: "participants (activeUsers s) ?members = Some ps"
        "room_members (activeUsers s) ?members = Some rs"
    by (auto simp: snd_joinRoom Let_def split: if_splits option.splits)
  from assms have up by (auto simp: snd_joinRoom Let_def split: if_splits)
  have evs: "snd (joinRoom s sock room now up) =
             snd (leave_previous sock room now (chatRooms s)) @
             [Emit (ToSocket (sock_id sock)) (ChatHistory (find_history (messages s) room) ps),
              Emit (ToRoom room) (UserJoined (userId sock) (u_username (user sock)) now),
              Emit (ToRoom room) (UpdateParticipants rs)]"
    using ok \<open>up\<close> by (simp add: snd_joinRoom Let_def)
  have "map_of (joined_rooms sock room (chatRooms s)) room \<noteq> None"
    by (simp add: map_of_joined_rooms)
  with participants_Some [OF ok(1)]
  have mem: "map_of (chatRooms (fst (joinRoom s sock room now up))) room = Some (map fst ps)"
    by (auto simp: chatRooms_joinRoom)
  note hist = history_oldest_first [of "messages s" room]
  from evs mem participants_Some [OF ok(1)] hist show ?thesis
    by (intro exI [of _ ps] exI [of _ rs] conjI) (simp_all add: find_history_def)
qed

theorem join_history_snapshot_witness:
  "join_failed alice \<notin> set (snd (joinRoom busy_room alice ''r1'' 200 True)) \<and>
   length (find_history (messages busy_room) ''r1'') = 50 \<and>
   sorted (map m_createdAt (find_history (messages busy_room) ''r1'')) \<and>
   (\<exists>ps :: (ident \<times> string \<times> string \<times> string) list.
      map_of (chatRooms (fst (joinRoom busy_room alice ''r1'' 200 True))) ''r1'' = Some (map fst ps))"
proof -
  have ok: "join_failed alice \<notin> set (snd (joinRoom busy_room alice ''r1'' 200 True))"
    unfolding busy_room_join by (simp add: join_failed_def)
  have n: "length (filter (\<lambda>m. m_room m = ''r1'') (messages busy_room)) = 51"
    by (simp add: busy_room_def stored_51_def filter_map comp_def msg_at_def)
  from join_history_snapshot [OF ok] obtain ps :: "(ident \<times> string \<times> string \<times> string) list" where
    a: "map_of (chatRooms (fst (joinRoom busy_room alice ''r1'' 200 True))) ''r1'' = Some (map fst ps)"
    and b: "sorted (map m_createdAt (find_history (messages busy_room) ''r1''))"
    and c: "length (find_history (messages busy_room) ''r1'') =
             min 50 (length (filter (\<lambda>m. m_room m = ''r1'') (messages busy_room)))"
    by blast
  from c n have "length (find_history (messages busy_room) ''r1'') = 50" by simp
  with ok a b show ?thesis by blast
qed

theorem history_is_not_last_50:
  "snd (joinRoom busy_room alice ''r1'' 200 True) =
     [Emit (ToSocket ''sockA'')
        (ChatHistory (butlast stored_51) [(StrId ''guest-1'', ''Guest-st-1'', ''picA'', ''online'')]),
      Emit (ToRoom ''r1'') (UserJoined (StrId ''guest-1'') ''Guest-st-1'' 200),
      Emit (ToRoom ''r1'') (UpdateParticipants [(StrId ''guest-1'', ''Guest-st-1'', ''picA'')])] \<and>
   last_50_history (messages busy_room) ''r1'' = tl stored_51 \<and>
   butlast stored_51 \<noteq> tl stored_51 \<and>
   last stored_51 = msg_at 150 \<and> msg_at 150 \<notin> set (butlast stored_51)"
proof -
  have hist: "find_history (messages busy_room) ''r1'' = butlast stored_51"
    unfolding find_history_def busy_room_messages stored_51_ordered by (rule stored_51_parts)
  have last: "last_50_history (messages busy_room) ''r1'' = tl stored_51"
    unfolding last_50_history_def busy_room_messages stored_51_ordered Let_def
    by (rule stored_51_parts)
  have newest: "last stored_51 = msg_at 150" "msg_at 150 \<notin> set (butlast stored_51)"
    by (simp_all add: stored_51_def msg_at_def)
  have "hd (butlast stored_51) \<noteq> hd (tl stored_51)"
    by (simp add: stored_51_def msg_at_def)
  then have ne: "butlast stored_51 \<noteq> tl stored_51" by metis
  from busy_room_join hist last ne newest show ?thesis by (simp only:) simp
qed

section \<open>The rate limiter\<close>

lemma messageTimestamps_other [simp]:
  "messageTimestamps (fst (connect s sock now)) = messageTimestamps s"
  "messageTimestamps (fst (joinRoom s sock room now up)) = messageTimestamps s"
  "messageTimestamps (fst (leaveRoom s sock room now)) = messageTimestamps s"
  "messageTimestamps (fst (typing s sock r b)) = messageTimestamps s"
  "messageTimestamps (fst (stopTyping s sock room)) = messageTimestamps s"
  "messageTimestamps (fst (privateMessage s sockets sock to body now)) = messageTimestamps s"
  "messageTimestamps (fst (disconnect s sock now)) = messageTimestamps s"
  by (simp_all add: connect_def fst_joinRoom leaveRoom_def typing_def stopTyping_def
        privateMessage_def disconnect_def Let_def case_prod_unfold split: option.splits)

lemma groupMessage_admitted:
  assumes "map_of (chatRooms s) room = Some members" "userId sock \<in> set members"
    "room \<noteq> []" "content \<noteq> []"
    "length (filter (\<lambda>time. now - time < 1000) (timestamps_of s (userId sock))) < 5"
  shows "messageTimestamps (fst (groupMessage s sock (Some room) (Some content) now saved)) =
           AList.update (userId sock) (timestamps_of s (userId sock) @ [now]) (messageTimestamps s)"
    and "chatRooms (fst (groupMessage s sock (Some room) (Some content) now saved)) = chatRooms s"
  using assms
  by (auto simp: groupMessage_def Let_def split: ident.splits save_result.splits)


lemma timestamps_after_admit:
  assumes "map_of (chatRooms s) room = Some members" "userId sock \<in> set members"
    "room \<noteq> []" "content \<noteq> []"
    "length (filter (\<lambda>time. now - time < 1000) (timestamps_of s (userId sock))) < 5"
  shows "timestamps_of (fst (groupMessage s sock (Some room) (Some content) now saved)) (userId sock)
           = timestamps_of s (userId sock) @ [now]"
  using groupMessage_admitted(1) [OF assms, of saved]
  by (simp add: timestamps_of_def update_conv')



lemma timestamps_of_update:
  "timestamps_of (s\<lparr>messageTimestamps := AList.update uid ts (messageTimestamps s)\<rparr>) k =
     (if k = uid then ts else timestamps_of s k)"
  by (simp add: timestamps_of_def update_conv')





lemma passes_checks_groupMessage [simp]:
  "passes_checks (fst (groupMessage s sock r c now saved)) sock' r' c' = passes_checks s sock' r' c'"
  by (simp add: passes_checks_def split: option.splits)




section \<open>Disconnecting while typing\<close>











end
